theory Spec2Isabelle
  imports Complex_Main "HOL-Library.Sublist" "HOL-Library.Log_Nat"
begin

section \<open>Python strings and the Unicode tables\<close>

text \<open>
  A Python \<open>str\<close> is a sequence of Unicode code points. A code point is a natural
  number, a string a list of them; \<open>py\<close> embeds an ASCII literal.
\<close>

type_synonym pychar = nat
type_synonym pystr = "pychar list"

definition py :: "string \<Rightarrow> pystr" where
  "py s = map of_char s"

text \<open>
  The character classes the script consults live in the Unicode database of the
  Python runtime, not in the repository. Below U+0100 they are written out; above,
  they are the three tables of a parameter \<open>U\<close>, about which nothing is assumed.
\<close>

record unicode =
  nd_above :: "pychar \<Rightarrow> bool"     \<comment> \<open>general category Nd, code points from U+0100\<close>
  digit_above :: "pychar \<Rightarrow> bool"  \<comment> \<open>\<open>str.isdigit\<close>, code points from U+0100\<close>
  space_above :: "pychar \<Rightarrow> bool"  \<comment> \<open>\<open>str.isspace\<close>, code points from U+0100\<close>

definition ascii_digit :: "pychar \<Rightarrow> bool" where
  "ascii_digit c = (48 \<le> c \<and> c \<le> 57)"

definition re_digit :: "unicode \<Rightarrow> pychar \<Rightarrow> bool" where
  \<comment> \<open>what \<open>\d\<close> matches in a \<open>str\<close> pattern: the decimal digits of Unicode\<close>
  "re_digit U c = (if c < 256 then ascii_digit c else nd_above U c)"

definition isdigit :: "unicode \<Rightarrow> pychar \<Rightarrow> bool" where
  \<comment> \<open>\<open>ch.isdigit()\<close>: decimal digits and the digits that are not decimal, such as
      the superscripts U+00B2, U+00B3 and U+00B9\<close>
  "isdigit U c =
     (if c < 256 then ascii_digit c \<or> c = 178 \<or> c = 179 \<or> c = 185 else digit_above U c)"

definition isspace :: "unicode \<Rightarrow> pychar \<Rightarrow> bool" where
  \<comment> \<open>the characters \<open>str.strip()\<close> removes\<close>
  "isspace U c =
     (if c < 256 then (9 \<le> c \<and> c \<le> 13) \<or> (28 \<le> c \<and> c \<le> 32) \<or> c = 133 \<or> c = 160
      else space_above U c)"

definition strip :: "unicode \<Rightarrow> pystr \<Rightarrow> pystr" where
  "strip U s = rev (dropWhile (isspace U) (rev (dropWhile (isspace U) s)))"

section \<open>Exceptions\<close>

text \<open>
  Every exception of the model is a subclass of \<open>Exception\<close>; the argument is the
  message \<open>str(e)\<close>.
\<close>

datatype exn =
    IndexError pystr
  | NameError pystr
  | OSError pystr
  | RequestException pystr
  | ValueError pystr
  | DatabaseError pystr

fun str_exn :: "exn \<Rightarrow> pystr" where
  "str_exn (IndexError m) = m"
| "str_exn (NameError m) = m"
| "str_exn (OSError m) = m"
| "str_exn (RequestException m) = m"
| "str_exn (ValueError m) = m"
| "str_exn (DatabaseError m) = m"

definition getitem :: "'a list \<Rightarrow> nat \<Rightarrow> exn + 'a" where
  \<comment> \<open>\<open>xs[i]\<close> for a literal index \<open>i \<ge> 0\<close>\<close>
  "getitem xs i =
     (if i < length xs then Inr (xs ! i) else Inl (IndexError (py ''list index out of range'')))"

section \<open>The document tree\<close>

text \<open>
  \<open>BeautifulSoup(page, 'html.parser')\<close> is a tree of tags and strings. Attributes play
  no part in the script. Comments and the like are left out: \<open>find_all\<close> with a tag
  name and \<open>get_text\<close> both pass over them.
\<close>

datatype node = Tag pystr "node list" | NavigableString pystr

fun descendants :: "node \<Rightarrow> node list" where
  "descendants (Tag n cs) = concat (map (\<lambda>c. c # descendants c) cs)"
| "descendants (NavigableString s) = []"

fun is_tag :: "pystr \<Rightarrow> node \<Rightarrow> bool" where
  "is_tag name (Tag n cs) = (n = name)"
| "is_tag name (NavigableString s) = False"

definition find_all :: "pystr \<Rightarrow> node \<Rightarrow> node list" where
  "find_all name t = filter (is_tag name) (descendants t)"

definition find_first :: "pystr \<Rightarrow> node \<Rightarrow> node option" where
  \<comment> \<open>\<open>t.find(name)\<close>, which is also \<open>t.name\<close>: the first match or \<open>None\<close>\<close>
  "find_first name t = (case find_all name t of [] \<Rightarrow> None | x # _ \<Rightarrow> Some x)"

fun strings :: "node \<Rightarrow> pystr list" where
  "strings (Tag n cs) = concat (map strings cs)"
| "strings (NavigableString s) = [s]"

definition get_text_strip :: "unicode \<Rightarrow> node \<Rightarrow> pystr" where
  \<comment> \<open>\<open>t.get_text(strip=True)\<close>: every string below \<open>t\<close> is stripped, the empty ones
      are dropped, the rest joined with no separator\<close>
  "get_text_strip U t = concat (filter (\<lambda>s. s \<noteq> []) (map (strip U) (strings t)))"

section \<open>Rows and data frames\<close>

datatype raw_row = RawRow (country: pystr) (gdp_raw: pystr)

text \<open>A data frame is the list of its rows, each with its index label.\<close>

type_synonym 'r dataframe = "(nat \<times> 'r) list"

definition concat_ignore_index :: "'r dataframe \<Rightarrow> 'r dataframe \<Rightarrow> 'r dataframe" where
  \<comment> \<open>\<open>pd.concat([a, b], ignore_index=True)\<close>\<close>
  "concat_ignore_index a b = (let rs = map snd a @ map snd b in zip [0 ..< length rs] rs)"

section \<open>Extraction\<close>

text \<open>
  The loop of \<open>extract\<close> over the rows, with the frame built so far. Reading
  \<open>col[2]\<close> raises when the row has fewer than three cells.
\<close>

fun extract_rows :: "unicode \<Rightarrow> node list \<Rightarrow> raw_row dataframe \<Rightarrow> exn + raw_row dataframe" where
  "extract_rows U [] df = Inr df"
| "extract_rows U (row # rows) df =
     (let col = find_all (py ''td'') row in
      if length col \<noteq> 0 \<and> find_first (py ''a'') (col ! 0) \<noteq> None then
        (let country = get_text_strip U (the (find_first (py ''a'') (col ! 0))) in
         case getitem col 2 of
           Inl e \<Rightarrow> Inl e
         | Inr c2 \<Rightarrow>
             (let gdp_raw = get_text_strip U c2 in
              if list_ex (isdigit U) gdp_raw
              then extract_rows U rows (concat_ignore_index df [(0, RawRow country gdp_raw)])
              else extract_rows U rows df))
      else extract_rows U rows df)"

text \<open>
  The function \<open>extract\<close> of the script (the name is a reserved word here, hence the
  suffix). \<open>requests.get(url).text\<close> parsed by BeautifulSoup is the input: the
  exception the request raised, or the document.
\<close>

definition extract_etl :: "unicode \<Rightarrow> exn + node \<Rightarrow> exn + raw_row dataframe" where
  "extract_etl U response =
     (case response of
        Inl e \<Rightarrow> Inl e
      | Inr data \<Rightarrow>
          (let tables = find_all (py ''tbody'') data in
           case getitem tables 2 of
             Inl e \<Rightarrow> Inl e
           | Inr t \<Rightarrow> extract_rows U (find_all (py ''tr'') t) []))"

section \<open>Numbers\<close>

text \<open>
  A \<open>float64\<close> cell is a binary64 number, an infinity or \<open>NaN\<close>. A number is given by
  the rational it denotes. \<open>float64\<close> rounds a rational to the nearest binary64
  number, a tie to the one with the even mantissa, and to an infinity from
  \<open>2 ^ 1024\<close> on: with \<open>e\<close> the exponent of the last mantissa bit (53 bits, no
  exponent under -1074), the mantissa is the rational over \<open>2 ^ e\<close>, rounded.
\<close>

datatype pyfloat = Num rat | PosInf | NegInf | NaN

definition rint :: "rat \<Rightarrow> int" where
  \<comment> \<open>nearest integer, a tie to the even one\<close>
  "rint x =
     (let f = \<lfloor>x\<rfloor>; d = x - of_int f in
      if d < 1 / 2 then f else if 1 / 2 < d then f + 1 else if even f then f else f + 1)"

definition binade :: "rat \<Rightarrow> int" where
  \<comment> \<open>for \<open>a > 0\<close>, the \<open>k\<close> with \<open>2 ^ k \<le> a < 2 ^ (k + 1)\<close>\<close>
  "binade a =
     (let (n, d) = quotient_of a; k = bitlen n - bitlen d in if 2 powi k \<le> a then k else k - 1)"

definition float64 :: "rat \<Rightarrow> pyfloat" where
  "float64 q =
     (if q = 0 then Num 0
      else
        let a = \<bar>q\<bar>;
            e = max (binade a - 52) (- 1074);
            r = of_int (rint (a / 2 powi e)) * 2 powi e
        in if 2 ^ 1024 \<le> r then (if 0 < q then PosInf else NegInf)
           else Num (if 0 < q then r else - r))"

fun truediv :: "pyfloat \<Rightarrow> rat \<Rightarrow> pyfloat" where
  \<comment> \<open>\<open>x / d\<close> for a constant \<open>d > 0\<close>\<close>
  "truediv (Num q) d = float64 (q / d)"
| "truediv PosInf d = PosInf"
| "truediv NegInf d = NegInf"
| "truediv NaN d = NaN"

fun multiply :: "pyfloat \<Rightarrow> rat \<Rightarrow> pyfloat" where
  \<comment> \<open>\<open>x * d\<close> for a constant \<open>d > 0\<close>\<close>
  "multiply (Num q) d = float64 (q * d)"
| "multiply PosInf d = PosInf"
| "multiply NegInf d = NegInf"
| "multiply NaN d = NaN"

fun np_rint :: "pyfloat \<Rightarrow> pyfloat" where
  "np_rint (Num q) = Num (of_int (rint q))"
| "np_rint PosInf = PosInf"
| "np_rint NegInf = NegInf"
| "np_rint NaN = NaN"

definition round_decimals :: "nat \<Rightarrow> pyfloat \<Rightarrow> pyfloat" where
  \<comment> \<open>\<open>.round(n)\<close> of numpy for \<open>n > 0\<close>: multiply by \<open>10 ^ n\<close>, \<open>rint\<close>, divide by \<open>10 ^ n\<close>,
      each in binary64\<close>
  "round_decimals n x = truediv (np_rint (multiply x (10 ^ n))) (10 ^ n)"

definition digits_value :: "pystr \<Rightarrow> nat" where
  "digits_value ds = foldl (\<lambda>a c. 10 * a + (c - 48)) 0 ds"

definition parse_decimal :: "pystr \<Rightarrow> rat option" where
  \<comment> \<open>what the number parser of \<open>pd.to_numeric\<close> accepts of what the cleaning leaves (no
      sign, blank or exponent): ASCII digits, at most one period, at least one digit;
      the value is the decimal number written\<close>
  "parse_decimal s =
     (let ip = takeWhile ascii_digit s; rest = dropWhile ascii_digit s in
      case rest of
        [] \<Rightarrow> if ip = [] then None else Some (of_nat (digits_value ip))
      | c # fs \<Rightarrow>
          if c = 46 \<and> list_all ascii_digit fs \<and> (ip \<noteq> [] \<or> fs \<noteq> [])
          then Some (of_nat (digits_value ip) + of_nat (digits_value fs) / 10 ^ length fs)
          else None)"

definition parse_float :: "pystr \<Rightarrow> pyfloat option" where
  \<comment> \<open>the parsed number as \<open>pd.to_numeric\<close> returns it: the nearest binary64, or infinity\<close>
  "parse_float s = map_option float64 (parse_decimal s)"

fun str_nat :: "nat \<Rightarrow> pystr" where
  "str_nat n = (if n < 10 then [48 + n] else str_nat (n div 10) @ [48 + n mod 10])"

datatype errors_mode = Raise | Coerce

fun to_numeric_from :: "errors_mode \<Rightarrow> nat \<Rightarrow> (nat \<times> pystr) list \<Rightarrow> exn + (nat \<times> pyfloat) list" where
  "to_numeric_from m k [] = Inr []"
| "to_numeric_from m k ((i, s) # xs) =
     (case (if s = [] then Inr NaN
            else case parse_float s of
                   Some v \<Rightarrow> Inr v
                 | None \<Rightarrow>
                     (case m of
                        Coerce \<Rightarrow> Inr NaN
                      | Raise \<Rightarrow>
                          Inl (ValueError (py ''Unable to parse string '' @ [34] @ s @ [34] @
                                 py '' at position '' @ str_nat k)))) of
        Inl e \<Rightarrow> Inl e
      | Inr v \<Rightarrow>
          (case to_numeric_from m (Suc k) xs of
             Inl e \<Rightarrow> Inl e
           | Inr vs \<Rightarrow> Inr ((i, v) # vs)))"

definition to_numeric :: "errors_mode \<Rightarrow> (nat \<times> pystr) list \<Rightarrow> exn + (nat \<times> pyfloat) list" where
  \<comment> \<open>\<open>pd.to_numeric(series, errors=m)\<close>; a series is the list of its labelled values\<close>
  "to_numeric m xs = to_numeric_from m 0 xs"

section \<open>Transformation\<close>

datatype clean_row = CleanRow (country_of: pystr) (gdp_usd_billions: pyfloat)

definition re_sub_non_numeric :: "unicode \<Rightarrow> pystr \<Rightarrow> pystr" where
  \<comment> \<open>\<open>.str.replace(r'[^\d.]', '', regex=True)\<close> on one value\<close>
  "re_sub_non_numeric U s = filter (\<lambda>c. re_digit U c \<or> c = 46) s"

definition dropna :: "clean_row dataframe \<Rightarrow> clean_row dataframe" where
  \<comment> \<open>\<open>.dropna(subset=["GDP_USD_billions"])\<close>: the labels of the rows that stay are kept\<close>
  "dropna df = filter (\<lambda>(i, r). gdp_usd_billions r \<noteq> NaN) df"

text \<open>
  \<open>cleaned\<close>, \<open>gdp_millions\<close> and the new column are series with the index of \<open>df\<close>, so
  assigning the column pairs it with the rows of \<open>df\<close> one by one.
\<close>

definition transform :: "unicode \<Rightarrow> raw_row dataframe \<Rightarrow> exn + clean_row dataframe" where
  "transform U df =
     (let cleaned = map (\<lambda>(i, r). (i, re_sub_non_numeric U (gdp_raw r))) df in
      case to_numeric Coerce cleaned of
        Inl e \<Rightarrow> Inl e
      | Inr gdp_millions \<Rightarrow>
          (let billions = map (\<lambda>(i, v). (i, round_decimals 2 (truediv v 1000))) gdp_millions;
               df_out = map (\<lambda>((i, r), (j, b)). (i, (r, b))) (zip df billions);
               df_out = map (\<lambda>(i, (r, b)). (i, CleanRow (country r) b)) df_out
           in Inr (dropna df_out)))"

section \<open>Loading and querying\<close>

text \<open>
  The one statement the script sends to the database:
  \<open>SELECT * FROM t WHERE GDP_USD_billions >= n\<close>.
\<close>

datatype sql = Select_where_gdp_ge pystr nat

definition sql_text :: "sql \<Rightarrow> pystr" where
  "sql_text q =
     (case q of Select_where_gdp_ge t n \<Rightarrow>
        py ''SELECT * FROM '' @ t @ py '' WHERE GDP_USD_billions >= '' @ str_nat n)"

datatype printed = Out_query sql | Out_frame "clean_row list"

text \<open>
  What the script reads and writes. The outcome of each call into the environment is
  fixed for the run: the request and its parse, opening the log file, opening the
  CSV file, connecting to the database, writing a table. \<open>conn\<close> is the global
  variable of that name: unbound, or a connection that is open (\<open>True\<close>) or closed.
\<close>

record world =
  response :: "exn + node"
  log_open_error :: "exn option"
  csv_open_error :: "exn option"
  connect_error :: "exn option"
  to_sql_error :: "exn option"
  timestamps :: "nat \<Rightarrow> pystr"
  now_calls :: nat
  log_file :: "pystr list"
  csv_file :: "(pystr list \<times> clean_row list) option"
  db_tables :: "pystr \<Rightarrow> clean_row list option"
  conn :: "bool option"
  stdout :: "printed list"
  stderr :: "pystr list"

type_synonym 'a action = "world \<Rightarrow> (exn + 'a) \<times> world"

definition and_then :: "'a action \<Rightarrow> ('a \<Rightarrow> 'b action) \<Rightarrow> 'b action" where
  \<comment> \<open>one statement after another: an exception skips what follows\<close>
  "and_then m f w = (case m w of (Inl e, w') \<Rightarrow> (Inl e, w') | (Inr a, w') \<Rightarrow> f a w')"

definition pure_stage :: "exn + 'a \<Rightarrow> 'a action" where
  "pure_stage r w = (r, w)"

definition table_name :: pystr where
  "table_name = py ''Countries_by_GDP''"

definition log_progress :: "pystr \<Rightarrow> unit action" where
  "log_progress inp w =
     (let timestamp = timestamps w (now_calls w);
          w = w\<lparr>now_calls := Suc (now_calls w)\<rparr>
      in case log_open_error w of
           Some e \<Rightarrow> (Inl e, w)
         | None \<Rightarrow> (Inr (), w\<lparr>log_file := log_file w @ [timestamp @ py '' : '' @ inp @ [10]]\<rparr>))"

definition load_to_csv :: "clean_row dataframe \<Rightarrow> unit action" where
  \<comment> \<open>\<open>df.to_csv(csv_path, index=False)\<close>: the header and the rows, without labels\<close>
  "load_to_csv df w =
     (case csv_open_error w of
        Some e \<Rightarrow> (Inl e, w)
      | None \<Rightarrow>
          (Inr (), w\<lparr>csv_file := Some ([py ''Country'', py ''GDP_USD_billions''], map snd df)\<rparr>))"

definition sqlite3_connect :: "unit action" where
  \<comment> \<open>\<open>conn = sqlite3.connect(db_name)\<close>\<close>
  "sqlite3_connect w =
     (case connect_error w of
        Some e \<Rightarrow> (Inl e, w)
      | None \<Rightarrow> (Inr (), w\<lparr>conn := Some True\<rparr>))"

definition load_to_db :: "clean_row dataframe \<Rightarrow> pystr \<Rightarrow> unit action" where
  \<comment> \<open>\<open>df.to_sql(table_name, conn, if_exists='replace', index=False)\<close>\<close>
  "load_to_db df name w =
     (case to_sql_error w of
        Some e \<Rightarrow> (Inl e, w)
      | None \<Rightarrow> (Inr (), w\<lparr>db_tables := (db_tables w)(name \<mapsto> map snd df)\<rparr>))"

definition query_statement :: sql where
  "query_statement = Select_where_gdp_ge table_name 100"

fun at_least :: "pyfloat \<Rightarrow> nat \<Rightarrow> bool" where
  \<comment> \<open>\<open>x >= n\<close> in the database, where \<open>NaN\<close> is stored as \<open>NULL\<close>\<close>
  "at_least (Num v) n = (of_nat n \<le> v)"
| "at_least PosInf n = True"
| "at_least NegInf n = False"
| "at_least NaN n = False"

fun read_sql :: "sql \<Rightarrow> world \<Rightarrow> exn + clean_row list" where
  "read_sql (Select_where_gdp_ge t n) w =
     (case db_tables w t of
        None \<Rightarrow>
          Inl (DatabaseError
                (py ''Execution failed on sql '' @ [39] @ sql_text (Select_where_gdp_ge t n) @
                 [39] @ py '': no such table: '' @ t))
      | Some rows \<Rightarrow> Inr (filter (\<lambda>r. at_least (gdp_usd_billions r) n) rows))"

definition run_query :: "sql \<Rightarrow> unit action" where
  "run_query q w =
     (let w = w\<lparr>stdout := stdout w @ [Out_query q]\<rparr> in
      case read_sql q w of
        Inl e \<Rightarrow> (Inl e, w)
      | Inr query_output \<Rightarrow> (Inr (), w\<lparr>stdout := stdout w @ [Out_frame query_output]\<rparr>))"

section \<open>Orchestration\<close>

definition try_block :: "unicode \<Rightarrow> unit action" where
  "try_block U =
     and_then (log_progress (py ''Preliminaries complete. Initiating ETL process.'')) (\<lambda>_.
     and_then (\<lambda>w. (extract_etl U (response w), w)) (\<lambda>df.
     and_then (log_progress (py ''Data extraction complete. Initiating transformation process.'')) (\<lambda>_.
     and_then (pure_stage (transform U df)) (\<lambda>df.
     and_then (log_progress (py ''Data transformation complete. Initiating loading process.'')) (\<lambda>_.
     and_then (load_to_csv df) (\<lambda>_.
     and_then (log_progress (py ''Data saved to CSV file.'')) (\<lambda>_.
     and_then sqlite3_connect (\<lambda>_.
     and_then (log_progress (py ''SQL connection initiated.'')) (\<lambda>_.
     and_then (load_to_db df table_name) (\<lambda>_.
     and_then (log_progress (py ''Data loaded to database as table. Running the query.'')) (\<lambda>_.
     and_then (run_query query_statement) (\<lambda>_.
     log_progress (py ''Process complete.'')))))))))))))"

definition except_block :: "exn \<Rightarrow> unit action" where
  \<comment> \<open>\<open>except Exception as e\<close>\<close>
  "except_block e =
     and_then (log_progress (py ''ERROR: '' @ str_exn e)) (\<lambda>_ w.
       (Inr (), w\<lparr>stderr := stderr w @ [py ''ERROR: '' @ str_exn e @ [10]]\<rparr>))"

definition conn_close :: "unit action" where
  \<comment> \<open>\<open>conn.close()\<close>: evaluating an unbound name raises\<close>
  "conn_close w =
     (case conn w of
        None \<Rightarrow> (Inl (NameError (py ''name '' @ [39] @ py ''conn'' @ [39] @ py '' is not defined'')), w)
      | Some b \<Rightarrow> (Inr (), w\<lparr>conn := Some False\<rparr>))"

definition finally_block :: "world \<Rightarrow> world" where
  \<comment> \<open>\<open>try: conn.close()\<close>, \<open>except Exception: pass\<close>\<close>
  "finally_block w = (case conn_close w of (Inl e, w') \<Rightarrow> w' | (Inr u, w') \<Rightarrow> w')"

text \<open>
  The script from its first statement: \<open>conn\<close> is unbound. The result \<open>Inl e\<close> is an
  exception that nothing caught, with which the interpreter ends the process.
\<close>

definition run :: "unicode \<Rightarrow> world \<Rightarrow> (exn + unit) \<times> world" where
  "run U w =
     (let (r, w) = try_block U (w\<lparr>conn := None\<rparr>);
          (r, w) = (case r of Inr u \<Rightarrow> (Inr u, w) | Inl e \<Rightarrow> except_block e w)
      in (r, finally_block w))"

section \<open>Rows and column values, one at a time\<close>

text \<open>
  What the loop of \<open>extract\<close> tests and builds for one row, and what \<open>transform\<close>
  computes for one value, named so that the results below can speak of them.
\<close>

definition reindex :: "'r list \<Rightarrow> 'r dataframe" where
  \<comment> \<open>the frame of the rows \<open>rs\<close> with the labels 0, 1, 2, ...\<close>
  "reindex rs = zip [0 ..< length rs] rs"

definition cells :: "node \<Rightarrow> node list" where
  "cells row = find_all (py ''td'') row"

definition row_has_link :: "node \<Rightarrow> bool" where
  "row_has_link row =
     (length (cells row) \<noteq> 0 \<and> find_first (py ''a'') (cells row ! 0) \<noteq> None)"

definition row_short :: "node \<Rightarrow> bool" where
  "row_short row = (row_has_link row \<and> length (cells row) < 3)"

definition row_raw :: "unicode \<Rightarrow> node \<Rightarrow> raw_row" where
  "row_raw U row =
     RawRow (get_text_strip U (the (find_first (py ''a'') (cells row ! 0))))
            (get_text_strip U (cells row ! 2))"

definition row_kept :: "unicode \<Rightarrow> node \<Rightarrow> bool" where
  "row_kept U row =
     (row_has_link row \<and> list_ex (isdigit U) (get_text_strip U (cells row ! 2)))"

definition coerce_value :: "pystr \<Rightarrow> pyfloat" where
  "coerce_value s = (case parse_float s of Some v \<Rightarrow> v | None \<Rightarrow> NaN)"

definition gdp_billions_of :: "unicode \<Rightarrow> pystr \<Rightarrow> pyfloat" where
  "gdp_billions_of U raw =
     round_decimals 2 (truediv (coerce_value (re_sub_non_numeric U raw)) 1000)"

definition unconvertible :: "unicode \<Rightarrow> raw_row \<Rightarrow> bool" where
  \<comment> \<open>the cleaned string is empty or does not parse\<close>
  "unconvertible U r =
     (let cleaned = re_sub_non_numeric U (gdp_raw r) in cleaned = [] \<or> parse_float cleaned = None)"


definition clean_of :: "unicode \<Rightarrow> raw_row \<Rightarrow> clean_row" where
  "clean_of U r = CleanRow (country r) (gdp_billions_of U (gdp_raw r))"

section \<open>The specification's wording\<close>

text \<open>
  The table the specification describes: a row is listed when it has a data cell,
  its first cell holds a hyperlink and the display text of its third cell holds a
  digit; it carries the trimmed display text of the first and of the third cell.
\<close>

definition get_text :: "node \<Rightarrow> pystr" where
  \<comment> \<open>the display text of an element: all its strings, joined\<close>
  "get_text t = concat (strings t)"

definition spec_row_included :: "node \<Rightarrow> bool" where
  "spec_row_included row =
     (length (cells row) \<noteq> 0 \<and> find_first (py ''a'') (cells row ! 0) \<noteq> None \<and>
      2 < length (cells row) \<and> list_ex ascii_digit (get_text (cells row ! 2)))"

definition spec_row :: "unicode \<Rightarrow> node \<Rightarrow> raw_row" where
  "spec_row U row =
     RawRow (strip U (get_text (cells row ! 0))) (strip U (get_text (cells row ! 2)))"

definition spec_extract :: "unicode \<Rightarrow> node \<Rightarrow> exn + raw_row dataframe" where
  "spec_extract U data =
     (case getitem (find_all (py ''tbody'') data) 2 of
        Inl e \<Rightarrow> Inl e
      | Inr t \<Rightarrow> Inr (reindex (map (spec_row U) (filter spec_row_included (find_all (py ''tr'') t)))))"

section \<open>Inputs for evaluation\<close>

text \<open>
  Every character of the inputs below lies under U+0100, so the tables of the
  parameter are never consulted there; these class nothing.
\<close>

definition tables_unused :: unicode where
  "tables_unused =
     \<lparr>nd_above = (\<lambda>c. False), digit_above = (\<lambda>c. False), space_above = (\<lambda>c. False)\<rparr>"

definition text_cell :: "string \<Rightarrow> node" where
  "text_cell s = Tag (py ''td'') [NavigableString (py s)]"

definition link_cell :: "string \<Rightarrow> node" where
  "link_cell s = Tag (py ''td'') [Tag (py ''a'') [NavigableString (py s)]]"

definition page_with_rows :: "node list \<Rightarrow> node" where
  \<comment> \<open>a document with three tables, the rows in the third\<close>
  "page_with_rows rows =
     Tag (py ''[document]'')
       [Tag (py ''table'') [Tag (py ''tbody'') []],
        Tag (py ''table'') [Tag (py ''tbody'') []],
        Tag (py ''table'') [Tag (py ''tbody'') rows]]"

definition row_france :: node where
  "row_france =
     Tag (py ''tr'') [link_cell ''France'', text_cell ''Europe'', text_cell ''2,923,489'']"

definition row_china :: node where
  \<comment> \<open>the country cell holds a footnote mark after the link\<close>
  "row_china =
     Tag (py ''tr'')
       [Tag (py ''td'')
          [Tag (py ''a'') [NavigableString (py ''China'')],
           Tag (py ''sup'') [Tag (py ''a'') [NavigableString (py ''[n 1]'')]]],
        text_cell ''Asia'', text_cell ''19,373,586'']"

definition row_dash :: node where
  "row_dash = Tag (py ''tr'') [link_cell ''Nauru'', text_cell ''Oceania'', text_cell ''-'']"


definition row_world :: node where
  \<comment> \<open>a linked first cell and nothing else\<close>
  "row_world = Tag (py ''tr'') [link_cell ''World'']"

definition world_at_start :: "exn + node \<Rightarrow> exn option \<Rightarrow> world" where
  \<comment> \<open>a world with the given response and the given outcome of opening the log file\<close>
  "world_at_start resp log_err =
     \<lparr>response = resp, log_open_error = log_err, csv_open_error = None,
      connect_error = None, to_sql_error = None, timestamps = (\<lambda>k. py ''2024-Jan-01-00:00:00''),
      now_calls = 0, log_file = [], csv_file = None, db_tables = (\<lambda>t. None), conn = None,
      stdout = [], stderr = []\<rparr>"

definition page_without_tables :: node where
  "page_without_tables =
     Tag (py ''[document]'') [Tag (py ''p'') [NavigableString (py ''Not Found'')]]"

definition connection_error :: exn where
  "connection_error = RequestException (py ''Connection refused'')"

definition permission_denied :: exn where
  "permission_denied =
     OSError (py ''[Errno 13] Permission denied: '' @ [39] @
              py ''/home/project/etl_project_log.txt'' @ [39])"

definition query_scenario :: "clean_row dataframe" where
  "query_scenario =
     [(0, CleanRow (py ''A'') (Num 150)), (1, CleanRow (py ''B'') (float64 (999 / 10))),
      (2, CleanRow (py ''C'') (Num 100))]"

section \<open>Auxiliary facts\<close>

subsection \<open>Rounding\<close>

lemma rint_near:
  assumes a: "of_int n - 1 / 2 < x" and b: "x < of_int n + 1 / 2"
  shows "rint x = n"
proof -
  have lo: "of_int (n - 1) \<le> x" using a by simp
  have hi: "x < of_int (n + 1)" using b by simp
  have "n - 1 \<le> \<lfloor>x\<rfloor>" using lo by (simp only: le_floor_iff)
  moreover have "\<lfloor>x\<rfloor> < n + 1" using hi by (simp only: floor_less_iff)
  ultimately have "\<lfloor>x\<rfloor> = n \<or> \<lfloor>x\<rfloor> = n - 1" by linarith
  then show "rint x = n"
  proof
    assume f: "\<lfloor>x\<rfloor> = n"
    then show ?thesis using a b by (simp add: rint_def Let_def)
  next
    assume f: "\<lfloor>x\<rfloor> = n - 1"
    then show ?thesis using a b by (simp add: rint_def Let_def)
  qed
qed



subsection \<open>Rounding to binary64\<close>

lemma bitlen_powi:
  assumes "0 < n"
  shows "(2::rat) powi (bitlen n - 1) \<le> of_int n" and "of_int n < (2::rat) powi bitlen n"
proof -
  from bitlen_bounds[OF assms] have b: "2 ^ nat (bitlen n - 1) \<le> n" "n < 2 ^ nat (bitlen n)"
    by simp_all
  have p: "1 \<le> bitlen n" using assms bitlen_eq_zero_iff[of n] bitlen_nonneg[of n]
    by (cases "bitlen n = 0") auto
  have "(2::rat) powi (bitlen n - 1) = of_int (2 ^ nat (bitlen n - 1))"
    using p by (simp add: power_int_def)
  also have "\<dots> \<le> of_int n" using b(1) by (simp only: of_int_le_iff)
  finally show "(2::rat) powi (bitlen n - 1) \<le> of_int n" .
  have "(of_int n :: rat) < of_int (2 ^ nat (bitlen n))" using b(2) by (simp only: of_int_less_iff)
  also have "\<dots> = 2 powi bitlen n" using p by (simp add: power_int_def)
  finally show "of_int n < (2::rat) powi bitlen n" .
qed

lemma binade_bounds:
  assumes "0 < a"
  shows "2 powi binade a \<le> a" and "a < 2 powi (binade a + 1)"
proof -
  obtain n d where q: "quotient_of a = (n, d)" by (cases "quotient_of a")
  then have d: "0 < d" and a: "a = of_int n / of_int d"
    by (simp_all add: quotient_of_denom_pos quotient_of_div)
  have n: "0 < n" using assms a d by (simp add: zero_less_divide_iff)
  let ?k = "bitlen n - bitlen d"
  have D: "(0::rat) < of_int d" using d by simp
  have lo: "(2::rat) powi (?k - 1) \<le> a"
  proof -
    have "(2::rat) powi (?k - 1) * of_int d \<le> 2 powi (?k - 1) * 2 powi bitlen d"
      using bitlen_powi(2)[OF d] by (intro mult_left_mono) simp_all
    also have "\<dots> = 2 powi (bitlen n - 1)" by (simp add: power_int_add[symmetric])
    also have "\<dots> \<le> of_int n" by (rule bitlen_powi(1)[OF n])
    finally show ?thesis using D by (simp add: a pos_le_divide_eq)
  qed
  have hi: "a < (2::rat) powi (?k + 1)"
  proof -
    have "of_int n < (2::rat) powi bitlen n" by (rule bitlen_powi(2)[OF n])
    also have "\<dots> = 2 powi (?k + 1) * 2 powi (bitlen d - 1)"
      by (simp add: power_int_add[symmetric])
    also have "\<dots> \<le> 2 powi (?k + 1) * of_int d"
      using bitlen_powi(1)[OF d] by (intro mult_left_mono) simp_all
    finally show ?thesis using D by (simp add: a pos_divide_less_eq)
  qed
  have b: "binade a = (if 2 powi ?k \<le> a then ?k else ?k - 1)"
    by (simp add: binade_def q Let_def)
  show "2 powi binade a \<le> a" using lo by (simp add: b)
  show "a < 2 powi (binade a + 1)" using hi by (auto simp: b not_le)
qed

lemma powi2_less_imp:
  assumes "(2::rat) powi m < 2 powi n"
  shows "m < n"
proof (rule ccontr)
  assume "\<not> m < n"
  then have "n \<le> m" by simp
  then have "(2::rat) powi n \<le> 2 powi m" by (intro power_int_increasing) simp_all
  with assms show False by simp
qed

lemma binade_unique:
  assumes "0 < a" and "2 powi k \<le> a" and "a < 2 powi (k + 1)"
  shows "binade a = k"
proof (rule antisym)
  have "(2::rat) powi k < 2 powi (binade a + 1)"
    using assms(2) binade_bounds(2)[OF assms(1)] by (rule le_less_trans)
  then have "k < binade a + 1" by (rule powi2_less_imp)
  then show "k \<le> binade a" by simp
  have "(2::rat) powi binade a < 2 powi (k + 1)"
    using binade_bounds(1)[OF assms(1)] assms(3) by (rule le_less_trans)
  then have "binade a < k + 1" by (rule powi2_less_imp)
  then show "binade a \<le> k" by simp
qed

lemma float64_near:
  assumes lo: "2 ^ 52 \<le> q * 2 ^ k" and hi: "q * 2 ^ k < 2 ^ 53" and k: "k \<le> 1074"
    and m1: "of_int m - 1 / 2 < q * 2 ^ k" and m2: "q * 2 ^ k < of_int m + 1 / 2"
  shows "float64 q = Num (of_int m / 2 ^ k)"
proof -
  have p: "(0::rat) < 2 ^ k" by simp
  have q: "0 < q"
  proof (rule ccontr)
    assume "\<not> 0 < q"
    then have "q * 2 ^ k \<le> 0" using p by (simp add: mult_le_0_iff)
    with lo show False by simp
  qed
  have pk: "(2::rat) powi (- int k) = 1 / 2 ^ k" by (simp add: power_int_def field_simps)
  have "(2::rat) powi (52 - int k) = 2 ^ 52 / 2 ^ k"
    by (simp add: power_int_diff)
  also have "\<dots> \<le> q" using lo p by (simp add: pos_divide_le_eq)
  finally have b1: "(2::rat) powi (52 - int k) \<le> q" .
  have "q < 2 ^ 53 / 2 ^ k" using hi p by (simp add: pos_less_divide_eq)
  also have "\<dots> = (2::rat) powi (52 - int k + 1)" by (simp add: power_int_diff)
  finally have b2: "q < (2::rat) powi (52 - int k + 1)" .
  have b: "binade q = 52 - int k" by (rule binade_unique[OF q b1 b2])
  have e: "max (binade q - 52) (- 1074) = - int k" using k by (simp add: b)
  have x: "q / 2 powi (- int k) = q * 2 ^ k" by (simp add: pk)
  have r: "rint (q * 2 ^ k) = m" by (rule rint_near[OF m1 m2])
  have "(of_int m :: rat) < 2 ^ 53 + 1 / 2" using m1 hi by simp
  then have "(of_int m :: rat) < of_int (2 ^ 53 + 1)" by simp
  then have "m < 2 ^ 53 + 1" by (simp only: of_int_less_iff)
  then have "(of_int m :: rat) \<le> 2 ^ 53" by simp
  then have "(of_int m :: rat) / 2 ^ k \<le> 2 ^ 53 / 2 ^ k" by (simp add: divide_right_mono)
  also have "\<dots> \<le> 2 ^ 53" by (simp add: pos_divide_le_eq)
  also have "\<dots> < (2::rat) ^ 1024" by simp
  finally have small: "\<not> (2::rat) ^ 1024 \<le> of_int m / 2 ^ k" by simp
  have "float64 q = Num (of_int (rint (q / 2 powi (- int k))) * 2 powi (- int k))"
    using q small
    by (simp add: float64_def Let_def e) (simp add: x r pk)
  then show ?thesis by (simp add: x r pk)
qed


lemma float64_not_NaN: "float64 q \<noteq> NaN"
  by (simp add: float64_def Let_def)


lemma truediv_NaN_iff: "truediv v d = NaN \<longleftrightarrow> v = NaN"
  by (cases v) (simp_all add: float64_not_NaN)

lemma multiply_NaN_iff: "multiply v d = NaN \<longleftrightarrow> v = NaN"
  by (cases v) (simp_all add: float64_not_NaN)

lemma np_rint_NaN_iff: "np_rint v = NaN \<longleftrightarrow> v = NaN"
  by (cases v) simp_all

lemma round_decimals_NaN_iff: "round_decimals n v = NaN \<longleftrightarrow> v = NaN"
  by (simp add: round_decimals_def truediv_NaN_iff multiply_NaN_iff np_rint_NaN_iff)






subsection \<open>Parsing and cleaning\<close>

lemma parse_decimal_Nil: "parse_decimal [] = None"
  by (simp add: parse_decimal_def)

lemma to_numeric_from_Coerce:
  "to_numeric_from Coerce k xs = Inr (map (\<lambda>(i, s). (i, coerce_value s)) xs)"
proof (induction xs arbitrary: k)
  case Nil
  then show ?case by simp
next
  case (Cons x xs)
  obtain i s where x: "x = (i, s)" by (cases x)
  show ?case
    by (simp add: x Cons.IH coerce_value_def parse_float_def parse_decimal_Nil split: option.split)
qed

lemma zip_map_same: "zip xs (map f xs) = map (\<lambda>x. (x, f x)) xs"
  by (induction xs) simp_all

lemma transform_rowwise:
  "transform U df =
     Inr (dropna (map (\<lambda>(i, r). (i, CleanRow (country r) (gdp_billions_of U (gdp_raw r)))) df))"
  by (simp add: transform_def to_numeric_def to_numeric_from_Coerce zip_map_same
      gdp_billions_of_def split_def o_def)




lemma map_snd_reindex: "map snd (reindex rs) = rs"
  by (simp add: reindex_def)

lemma map_fst_reindex: "map fst (reindex rs) = [0 ..< length rs]"
  by (simp add: reindex_def)

lemma length_reindex: "length (reindex rs) = length rs"
  by (simp add: reindex_def)

lemma concat_ignore_index_reindex: "concat_ignore_index a b = reindex (map snd a @ map snd b)"
  by (simp add: concat_ignore_index_def reindex_def Let_def)

lemma extract_rows_eq:
  "extract_rows U rows df =
     (if list_ex row_short rows then Inl (IndexError (py ''list index out of range''))
      else Inr (if filter (row_kept U) rows = [] then df
                else reindex (map snd df @ map (row_raw U) (filter (row_kept U) rows))))"
proof (induction rows arbitrary: df)
  case Nil
  then show ?case by simp
next
  case (Cons row rows)
  show ?case
  proof (cases "row_has_link row")
    case False
    then have "extract_rows U (row # rows) df = extract_rows U rows df"
      by (auto simp: row_has_link_def cells_def Let_def)
    moreover have "\<not> row_short row" "\<not> row_kept U row"
      using False by (simp_all add: row_short_def row_kept_def)
    ultimately show ?thesis by (simp add: Cons.IH)
  next
    case link: True
    show ?thesis
    proof (cases "length (cells row) < 3")
      case True
      then have "extract_rows U (row # rows) df = Inl (IndexError (py ''list index out of range''))"
        using link by (simp add: row_has_link_def cells_def Let_def getitem_def)
      moreover have "row_short row" using link True by (simp add: row_short_def)
      ultimately show ?thesis by simp
    next
      case False
      then have ns: "\<not> row_short row" by (simp add: row_short_def)
      have g: "getitem (find_all (py ''td'') row) 2 = Inr (cells row ! 2)"
        using False by (simp add: getitem_def cells_def)
      show ?thesis
      proof (cases "list_ex (isdigit U) (get_text_strip U (cells row ! 2))")
        case True
        then have k: "row_kept U row" using link by (simp add: row_kept_def)
        have "extract_rows U (row # rows) df =
                extract_rows U rows (reindex (map snd df @ [row_raw U row]))"
          using link True g
          by (auto simp: row_has_link_def Let_def concat_ignore_index_reindex row_raw_def
              cells_def)
        then show ?thesis using ns k by (simp add: Cons.IH map_snd_reindex)
      next
        case False
        then have k: "\<not> row_kept U row" by (simp add: row_kept_def)
        have "extract_rows U (row # rows) df = extract_rows U rows df"
          using link False g by (auto simp: row_has_link_def Let_def cells_def)
        then show ?thesis using ns k by (simp add: Cons.IH)
      qed
    qed
  qed
qed

lemma extract_rows_start:
  "extract_rows U rows [] =
     (if list_ex row_short rows then Inl (IndexError (py ''list index out of range''))
      else Inr (reindex (map (row_raw U) (filter (row_kept U) rows))))"
  by (simp add: extract_rows_eq reindex_def)



lemma extract_etl_eq:
  assumes "getitem (find_all (py ''tbody'') data) 2 = Inr t"
  shows "extract_etl U (Inr data) =
     (if list_ex row_short (find_all (py ''tr'') t)
      then Inl (IndexError (py ''list index out of range''))
      else Inr (reindex (map (row_raw U) (filter (row_kept U) (find_all (py ''tr'') t)))))"
  using assms by (simp add: extract_etl_def Let_def extract_rows_start)

lemma extract_etl_Inr:
  assumes "extract_etl U resp = Inr df"
  shows "\<exists>data t. resp = Inr data \<and> getitem (find_all (py ''tbody'') data) 2 = Inr t \<and>
           \<not> list_ex row_short (find_all (py ''tr'') t) \<and>
           df = reindex (map (row_raw U) (filter (row_kept U) (find_all (py ''tr'') t)))"
proof (cases resp)
  case (Inl e)
  with assms show ?thesis by (simp add: extract_etl_def)
next
  case (Inr data)
  show ?thesis
  proof (cases "getitem (find_all (py ''tbody'') data) 2")
    case (Inl e)
    with assms Inr show ?thesis by (simp add: extract_etl_def Let_def)
  next
    case t: (Inr t)
    from assms Inr extract_etl_eq[OF t, of U] show ?thesis
      using t by (auto split: if_splits)
  qed
qed

subsection \<open>Evaluation at the sample inputs\<close>

lemmas eval_defs =
  extract_etl_def page_with_rows_def row_france_def row_china_def row_dash_def row_world_def
  link_cell_def text_cell_def find_all_def find_first_def getitem_def get_text_strip_def
  strip_def isspace_def isdigit_def ascii_digit_def py_def concat_ignore_index_def Let_def

lemma third_tbody:
  "getitem (find_all (py ''tbody'') (page_with_rows rows)) 2 = Inr (Tag (py ''tbody'') rows)"
  by (simp add: page_with_rows_def find_all_def getitem_def py_def)


lemma extract_france_china_dash:
  "extract_etl U (Inr (page_with_rows [row_france, row_china, row_dash])) =
     Inr [(0, RawRow (py ''France'') (py ''2,923,489'')),
          (1, RawRow (py ''China'') (py ''19,373,586''))]"
  by (simp add: eval_defs)

subsection \<open>The transformer, row by row\<close>

lemma parse_float_None_iff: "parse_float s = None \<longleftrightarrow> parse_decimal s = None"
  by (simp add: parse_float_def)

lemma coerce_value_NaN_iff: "coerce_value s = NaN \<longleftrightarrow> parse_decimal s = None"
  by (cases "parse_decimal s") (simp_all add: coerce_value_def parse_float_def float64_not_NaN)

lemma gdp_billions_NaN_iff: "gdp_billions_of U (gdp_raw r) = NaN \<longleftrightarrow> unconvertible U r"
  by (auto simp: gdp_billions_of_def round_decimals_NaN_iff truediv_NaN_iff coerce_value_NaN_iff
      unconvertible_def Let_def parse_float_None_iff parse_decimal_Nil)



lemma dropna_map:
  "dropna (map (\<lambda>(i, r). (i, clean_of U r)) df) =
   map (\<lambda>(i, r). (i, clean_of U r)) (filter (\<lambda>(i, r). \<not> unconvertible U r) df)"
  by (induction df) (auto simp: dropna_def clean_of_def gdp_billions_NaN_iff)

lemma transform_eq:
  "transform U df =
     Inr (map (\<lambda>(i, r). (i, clean_of U r)) (filter (\<lambda>(i, r). \<not> unconvertible U r) df))"
  using dropna_map[of U df] by (simp add: transform_rowwise clean_of_def)

lemma transform_member:
  assumes "transform U df = Inr out" and "(i, c) \<in> set out"
  shows "\<exists>r. (i, r) \<in> set df \<and> \<not> unconvertible U r \<and> c = clean_of U r"
  using assms by (auto simp: transform_eq)

lemma transform_single:
  assumes "parse_decimal (re_sub_non_numeric U raw) = Some m"
  shows "transform U [(i, RawRow n raw)] = Inr [(i, CleanRow n (gdp_billions_of U raw))]"
  using assms
  by (simp add: transform_eq unconvertible_def Let_def parse_float_None_iff clean_of_def)
     (auto simp: parse_decimal_Nil)



section \<open>The transformer\<close>

text \<open>
  C1, at the raw text \<open>25,678[5]\<close>, for which the claim gives 25.68. The cleaning
  removes the comma and the brackets and keeps the digit of the footnote mark: the
  cleaned text is \<open>256785\<close>. Divided by 1000 and rounded, it gives the binary64 number
  nearest to 256.79, which is not the one nearest to 25.68.
\<close>

theorem footnote_digit_value:
  "re_sub_non_numeric tables_unused (py ''25,678[5]'') = py ''256785'' \<and>
   transform tables_unused [(0, RawRow (py ''A'') (py ''25,678[5]''))] =
     Inr [(0, CleanRow (py ''A'') (float64 (25679 / 100)))] \<and>
   float64 (25679 / 100) \<noteq> float64 (2568 / 100)"
proof (intro conjI)
  show c: "re_sub_non_numeric tables_unused (py ''25,678[5]'') = py ''256785''"
    by (simp add: py_def re_sub_non_numeric_def re_digit_def ascii_digit_def)
  have p: "parse_decimal (py ''256785'') = Some 256785"
    by (simp add: parse_decimal_def py_def ascii_digit_def digits_value_def)
  have "float64 256785 = Num (of_int (256785 * 2 ^ 35) / 2 ^ 35)"
    by (rule float64_near) simp_all
  then have f0: "float64 256785 = Num 256785" by simp
  have f1: "float64 (256785 / 1000) = Num (of_int 4517409493415363 / 2 ^ 44)"
    by (rule float64_near) simp_all
  have f2: "float64 (of_int 4517409493415363 / 2 ^ 44 * 10 ^ 2) =
              Num (of_int 7058452333461505 / 2 ^ 38)"
    by (rule float64_near) simp_all
  have f3: "rint (of_int 7058452333461505 / 2 ^ 38) = 25679"
    by (rule rint_near) simp_all
  have "coerce_value (py ''256785'') = Num 256785"
    by (simp add: coerce_value_def parse_float_def p f0)
  then have "gdp_billions_of tables_unused (py ''25,678[5]'') = float64 (of_int 25679 / 10 ^ 2)"
    by (simp only: gdp_billions_of_def c round_decimals_def truediv.simps f1 multiply.simps f2
        np_rint.simps f3)
  then have g: "gdp_billions_of tables_unused (py ''25,678[5]'') = float64 (25679 / 100)"
    by simp
  have "parse_decimal (re_sub_non_numeric tables_unused (py ''25,678[5]'')) = Some 256785"
    by (simp only: c p)
  from transform_single[OF this, of 0 "py ''A''"] g
  show "transform tables_unused [(0, RawRow (py ''A'') (py ''25,678[5]''))] =
     Inr [(0, CleanRow (py ''A'') (float64 (25679 / 100)))]"
    by simp
  have a: "float64 (25679 / 100) = Num (of_int 4517497454345585 / 2 ^ 44)"
    by (rule float64_near) simp_all
  have b: "float64 (2568 / 100) = Num (of_int 7228277401929646 / 2 ^ 48)"
    by (rule float64_near) simp_all
  show "float64 (25679 / 100) \<noteq> float64 (2568 / 100)"
    unfolding a b by simp
qed

text \<open>
  C3. The transformer returns a frame, never an exception. The frame has one row for
  each convertible row of the input and every row of it comes from a convertible
  row; where the labels of the input are distinct, as they are in a frame built by
  the extractor, no row of the output bears the label of a row whose cleaned string
  is empty or does not parse.
\<close>

theorem transform_drops_unconvertible:
  "\<exists>out. transform U df = Inr out \<and>
     length out = length (filter (\<lambda>(i, r). \<not> unconvertible U r) df) \<and>
     (\<forall>i c. (i, c) \<in> set out \<longrightarrow>
        (\<exists>r. (i, r) \<in> set df \<and> \<not> unconvertible U r \<and> country_of c = country r)) \<and>
     (distinct (map fst df) \<longrightarrow>
        (\<forall>i r. (i, r) \<in> set df \<and> unconvertible U r \<longrightarrow> i \<notin> fst ` set out))"
proof -
  let ?out = "map (\<lambda>(i, r). (i, clean_of U r)) (filter (\<lambda>(i, r). \<not> unconvertible U r) df)"
  have t: "transform U df = Inr ?out" by (rule transform_eq)
  have len: "length ?out = length (filter (\<lambda>(i, r). \<not> unconvertible U r) df)" by simp
  have src: "\<exists>r. (i, r) \<in> set df \<and> \<not> unconvertible U r \<and> country_of c = country r"
    if "(i, c) \<in> set ?out" for i c
    using transform_member[OF t that] by (auto simp: clean_of_def)
  have absent: "i \<notin> fst ` set ?out"
    if d: "distinct (map fst df)" and m: "(i, r) \<in> set df" and u: "unconvertible U r" for i r
  proof
    assume "i \<in> fst ` set ?out"
    then obtain c where "(i, c) \<in> set ?out" by force
    from src[OF this] obtain r' where r': "(i, r') \<in> set df" "\<not> unconvertible U r'" by blast
    from d m r'(1) have "r = r'" by (rule eq_key_imp_eq_value)
    with u r'(2) show False by simp
  qed
  show ?thesis using t len src absent by blast
qed

theorem transform_drops_unconvertible_witness:
  "\<exists>out. transform tables_unused
           [(0, RawRow (py ''A'') (py ''1,234'')), (1, RawRow (py ''B'') (py ''-'')),
            (2, RawRow (py ''C'') (py ''1.2.3''))] = Inr out \<and>
     length out = 1 \<and> 1 \<notin> fst ` set out \<and> 2 \<notin> fst ` set out"
proof -
  let ?df = "[(0::nat, RawRow (py ''A'') (py ''1,234'')), (1, RawRow (py ''B'') (py ''-'')),
              (2, RawRow (py ''C'') (py ''1.2.3''))]"
  have u0: "\<not> unconvertible tables_unused (RawRow (py ''A'') (py ''1,234''))"
    by (simp add: unconvertible_def re_sub_non_numeric_def re_digit_def ascii_digit_def
        parse_float_def parse_decimal_def py_def Let_def)
  have u1: "unconvertible tables_unused (RawRow (py ''B'') (py ''-''))"
    by (simp add: unconvertible_def re_sub_non_numeric_def re_digit_def ascii_digit_def
        parse_float_def parse_decimal_def py_def Let_def)
  have u2: "unconvertible tables_unused (RawRow (py ''C'') (py ''1.2.3''))"
    by (simp add: unconvertible_def re_sub_non_numeric_def re_digit_def ascii_digit_def
        parse_float_def parse_decimal_def py_def Let_def)
  have d: "distinct (map fst ?df)" by simp
  from transform_drops_unconvertible[of tables_unused ?df]
  obtain out where o: "transform tables_unused ?df = Inr out"
    and len: "length out = length (filter (\<lambda>(i, r). \<not> unconvertible tables_unused r) ?df)"
    and absent: "distinct (map fst ?df) \<longrightarrow>
        (\<forall>i r. (i, r) \<in> set ?df \<and> unconvertible tables_unused r \<longrightarrow> i \<notin> fst ` set out)"
    by blast
  from len u0 u1 u2 have "length out = 1" by simp
  moreover from absent d u1 have "1 \<notin> fst ` set out" by simp
  moreover from absent d u2 have "2 \<notin> fst ` set out" by simp
  ultimately show ?thesis using o by blast
qed




section \<open>The extractor\<close>

text \<open>
  C2, as amended. When the third table body exists and no row under it with a
  hyperlink in its first cell has fewer than three cells, the extractor returns the
  frame that lists, in the order of the document and with the labels 0, 1, 2, ..., the
  rows that have a data cell, a hyperlink in the first cell and, in the text of the
  third cell, a character that \<open>str.isdigit\<close> accepts; each carries the text of the first
  hyperlink of its first cell as country and the text of its third cell as GDP text,
  the text of an element being its strings, each stripped, joined.
\<close>

theorem extract_table:
  assumes "getitem (find_all (py ''tbody'') data) 2 = Inr t"
    and "\<not> list_ex row_short (find_all (py ''tr'') t)"
  shows "extract_etl U (Inr data) =
     Inr (reindex (map (row_raw U) (filter (row_kept U) (find_all (py ''tr'') t))))"
  using assms(2) by (simp add: extract_etl_eq[OF assms(1)])

theorem extract_table_witness:
  "getitem (find_all (py ''tbody'') (page_with_rows [row_france, row_china, row_dash])) 2 =
     Inr (Tag (py ''tbody'') [row_france, row_china, row_dash]) \<and>
   \<not> list_ex row_short
       (find_all (py ''tr'') (Tag (py ''tbody'') [row_france, row_china, row_dash])) \<and>
   extract_etl tables_unused (Inr (page_with_rows [row_france, row_china, row_dash])) =
     Inr (reindex (map (row_raw tables_unused) (filter (row_kept tables_unused)
       (find_all (py ''tr'') (Tag (py ''tbody'') [row_france, row_china, row_dash])))))"
proof -
  let ?t = "Tag (py ''tbody'') [row_france, row_china, row_dash]"
  have h1: "getitem (find_all (py ''tbody'') (page_with_rows [row_france, row_china, row_dash])) 2
              = Inr ?t"
    by (rule third_tbody)
  have h2: "\<not> list_ex row_short (find_all (py ''tr'') ?t)"
    by (simp add: row_short_def row_has_link_def cells_def eval_defs)
  from h1 h2 extract_table[OF h1 h2, of tables_unused] show ?thesis by (intro conjI)
qed

text \<open>
  The claim as written takes the country from the display text of the first cell.
  Where the cell holds a footnote mark after the link, the extractor lists the text
  of the link alone.
\<close>

theorem link_text_counterexample:
  "extract_etl tables_unused (Inr (page_with_rows [row_france, row_china, row_dash])) =
     Inr [(0, RawRow (py ''France'') (py ''2,923,489'')),
          (1, RawRow (py ''China'') (py ''19,373,586''))] \<and>
   spec_extract tables_unused (page_with_rows [row_france, row_china, row_dash]) =
     Inr [(0, RawRow (py ''France'') (py ''2,923,489'')),
          (1, RawRow (py ''China[n 1]'') (py ''19,373,586''))] \<and>
   extract_etl tables_unused (Inr (page_with_rows [row_france, row_china, row_dash])) \<noteq>
     spec_extract tables_unused (page_with_rows [row_france, row_china, row_dash])"
proof -
  have a: "extract_etl tables_unused (Inr (page_with_rows [row_france, row_china, row_dash])) =
     Inr [(0, RawRow (py ''France'') (py ''2,923,489'')),
          (1, RawRow (py ''China'') (py ''19,373,586''))]"
    by (rule extract_france_china_dash)
  have b: "spec_extract tables_unused (page_with_rows [row_france, row_china, row_dash]) =
     Inr [(0, RawRow (py ''France'') (py ''2,923,489'')),
          (1, RawRow (py ''China[n 1]'') (py ''19,373,586''))]"
    by (simp add: eval_defs spec_extract_def spec_row_def spec_row_included_def cells_def
        get_text_def reindex_def)
  have "py ''China'' \<noteq> py ''China[n 1]''" by (simp add: py_def)
  with a b show ?thesis by simp
qed

text \<open>
  C10. Whenever the third table body exists and a row under it has a hyperlink in
  its first cell and fewer than three cells, the extractor raises the indexing error
  of \<open>col[2]\<close>; the page of the witness is such a document.
\<close>

theorem short_row_raises:
  assumes "getitem (find_all (py ''tbody'') data) 2 = Inr t"
    and "row \<in> set (find_all (py ''tr'') t)"
    and "row_has_link row"
    and "length (cells row) < 3"
  shows "extract_etl U (Inr data) = Inl (IndexError (py ''list index out of range''))"
proof -
  have "row_short row" using assms(3,4) by (simp add: row_short_def)
  with assms(2) have "list_ex row_short (find_all (py ''tr'') t)"
    by (auto simp: list_ex_iff)
  then show ?thesis by (simp add: extract_etl_eq[OF assms(1)])
qed

theorem short_row_raises_witness:
  "getitem (find_all (py ''tbody'') (page_with_rows [row_france, row_world, row_dash])) 2 =
     Inr (Tag (py ''tbody'') [row_france, row_world, row_dash]) \<and>
   row_world \<in> set (find_all (py ''tr'') (Tag (py ''tbody'') [row_france, row_world, row_dash])) \<and>
   row_has_link row_world \<and> length (cells row_world) < 3 \<and>
   extract_etl tables_unused (Inr (page_with_rows [row_france, row_world, row_dash])) =
     Inl (IndexError (py ''list index out of range''))"
proof -
  let ?t = "Tag (py ''tbody'') [row_france, row_world, row_dash]"
  have h1: "getitem (find_all (py ''tbody'') (page_with_rows [row_france, row_world, row_dash])) 2
              = Inr ?t"
    by (rule third_tbody)
  have h2: "row_world \<in> set (find_all (py ''tr'') ?t)" by (simp add: eval_defs)
  have h3: "row_has_link row_world" by (simp add: row_has_link_def cells_def eval_defs)
  have h4: "length (cells row_world) < 3" by (simp add: cells_def eval_defs)
  from h1 h2 h3 h4 short_row_raises[OF h1 h2 h3 h4, of tables_unused]
  show ?thesis by (intro conjI)
qed

section \<open>Order\<close>

text \<open>
  C6. A frame the extractor returns has the labels 0, 1, 2, ... and lists the rows it
  keeps in the order in which \<open>find_all\<close> meets them in the document; the transformer
  returns the rows of that frame that convert, each under its label, in the same
  order.
\<close>

theorem order_preserved:
  assumes "extract_etl U resp = Inr df"
  shows "\<exists>data t out. resp = Inr data \<and> getitem (find_all (py ''tbody'') data) 2 = Inr t \<and>
           transform U df = Inr out \<and>
           map fst df = [0 ..< length df] \<and>
           map snd df = map (row_raw U) (filter (row_kept U) (find_all (py ''tr'') t)) \<and>
           subseq (map snd df) (map (row_raw U) (find_all (py ''tr'') t)) \<and>
           out = map (\<lambda>(i, r). (i, clean_of U r)) (filter (\<lambda>(i, r). \<not> unconvertible U r) df) \<and>
           subseq (map fst out) (map fst df)"
proof -
  from extract_etl_Inr[OF assms] obtain data t
    where d: "resp = Inr data" "getitem (find_all (py ''tbody'') data) 2 = Inr t"
      and df: "df = reindex (map (row_raw U) (filter (row_kept U) (find_all (py ''tr'') t)))"
    by blast
  let ?out = "map (\<lambda>(i, r). (i, clean_of U r)) (filter (\<lambda>(i, r). \<not> unconvertible U r) df)"
  have t: "transform U df = Inr ?out" by (rule transform_eq)
  have l: "map fst df = [0 ..< length df]" by (simp add: df map_fst_reindex length_reindex)
  have s: "map snd df = map (row_raw U) (filter (row_kept U) (find_all (py ''tr'') t))"
    by (simp add: df map_snd_reindex)
  have s': "subseq (map snd df) (map (row_raw U) (find_all (py ''tr'') t))"
    unfolding s by (intro subseq_map subseq_filter_left)
  have "map fst ?out = map fst (filter (\<lambda>(i, r). \<not> unconvertible U r) df)"
    by (simp add: split_def o_def)
  then have o: "subseq (map fst ?out) (map fst df)"
    by (simp only: subseq_map subseq_filter_left)
  from d t l s s' o show ?thesis by blast
qed

theorem order_preserved_witness:
  "\<exists>out. transform tables_unused
       [(0, RawRow (py ''France'') (py ''2,923,489'')),
        (1, RawRow (py ''China'') (py ''19,373,586''))] = Inr out \<and>
     subseq (map fst out) [0, 1]"
proof -
  let ?df = "[(0::nat, RawRow (py ''France'') (py ''2,923,489'')),
              (1, RawRow (py ''China'') (py ''19,373,586''))]"
  have h: "extract_etl tables_unused (Inr (page_with_rows [row_france, row_china, row_dash])) =
             Inr ?df"
    by (rule extract_france_china_dash)
  from order_preserved[OF h] obtain out
    where "transform tables_unused ?df = Inr out" "subseq (map fst out) (map fst ?df)"
    by blast
  then show ?thesis by auto
qed

section \<open>The run\<close>

lemma log_progress_ok:
  assumes "log_open_error w = None"
  shows "log_progress inp w =
     (Inr (), w\<lparr>now_calls := Suc (now_calls w),
                log_file := log_file w @ [timestamps w (now_calls w) @ py '' : '' @ inp @ [10]]\<rparr>)"
  using assms by (simp add: log_progress_def Let_def)

lemma log_progress_fail:
  assumes "log_open_error w = Some e"
  shows "log_progress inp w = (Inl e, w\<lparr>now_calls := Suc (now_calls w)\<rparr>)"
  using assms by (simp add: log_progress_def Let_def)

lemma and_then_Inl: "m w = (Inl e, w') \<Longrightarrow> and_then m f w = (Inl e, w')"
  by (simp add: and_then_def)

lemma and_then_Inr: "m w = (Inr a, w') \<Longrightarrow> and_then m f w = f a w'"
  by (simp add: and_then_def)

lemma try_block_log_fails:
  assumes "log_open_error w = Some e"
  shows "try_block U w = (Inl e, w\<lparr>now_calls := Suc (now_calls w)\<rparr>)"
  unfolding try_block_def by (rule and_then_Inl) (rule log_progress_fail[OF assms])

lemma try_block_extract_raises:
  assumes "log_open_error w = None" and "extract_etl U (response w) = Inl e"
  shows "try_block U w =
     (Inl e, w\<lparr>now_calls := Suc (now_calls w),
               log_file := log_file w @
                 [timestamps w (now_calls w) @ py '' : '' @
                  py ''Preliminaries complete. Initiating ETL process.'' @ [10]]\<rparr>)"
  by (simp add: try_block_def and_then_def log_progress_ok[OF assms(1)] assms(2))

lemma run_extract_raises:
  assumes "log_open_error w = None" and "extract_etl U (response w) = Inl e"
  shows "run U w =
     (Inr (), w\<lparr>conn := None, now_calls := now_calls w + 2,
               log_file := log_file w @
                 [timestamps w (now_calls w) @ py '' : '' @
                    py ''Preliminaries complete. Initiating ETL process.'' @ [10],
                  timestamps w (Suc (now_calls w)) @ py '' : '' @
                    (py ''ERROR: '' @ str_exn e) @ [10]],
               stderr := stderr w @ [py ''ERROR: '' @ str_exn e @ [10]]\<rparr>)"
proof -
  let ?w = "w\<lparr>conn := None\<rparr>"
  have a: "log_open_error ?w = None" "extract_etl U (response ?w) = Inl e"
    using assms by simp_all
  show ?thesis
    by (simp add: run_def try_block_extract_raises[OF a] except_block_def and_then_def
        log_progress_def finally_block_def conn_close_def Let_def assms(1))
qed

lemma run_log_fails:
  assumes "log_open_error w = Some e"
  shows "run U w = (Inl e, w\<lparr>conn := None, now_calls := now_calls w + 2\<rparr>)"
proof -
  let ?w = "w\<lparr>conn := None\<rparr>"
  have a: "log_open_error ?w = Some e" using assms by simp
  show ?thesis
    by (simp add: run_def try_block_log_fails[OF a] except_block_def and_then_def
        log_progress_def finally_block_def conn_close_def Let_def assms)
qed

text \<open>
  C4. When the document has fewer than three table bodies, \<open>tables[2]\<close> raises the
  indexing error and the extractor returns it as such. In a run that reaches the
  extraction (the log file can be opened), the try block ends with that exception
  and the top-level handler receives it: the run logs and prints
  \<open>ERROR: list index out of range\<close> and ends without an uncaught exception.
\<close>

theorem missing_table_body:
  assumes "response w = Inr data"
    and "length (find_all (py ''tbody'') data) < 3"
    and "log_open_error w = None"
  shows "extract_etl U (response w) = Inl (IndexError (py ''list index out of range'')) \<and>
     fst (try_block U (w\<lparr>conn := None\<rparr>)) = Inl (IndexError (py ''list index out of range'')) \<and>
     run U w =
       (Inr (), w\<lparr>conn := None, now_calls := now_calls w + 2,
                 log_file := log_file w @
                   [timestamps w (now_calls w) @ py '' : '' @
                      py ''Preliminaries complete. Initiating ETL process.'' @ [10],
                    timestamps w (Suc (now_calls w)) @ py '' : '' @
                      py ''ERROR: list index out of range'' @ [10]],
                 stderr := stderr w @ [py ''ERROR: list index out of range'' @ [10]]\<rparr>)"
proof -
  let ?e = "IndexError (py ''list index out of range'')"
  have x: "extract_etl U (response w) = Inl ?e"
    using assms(1,2) by (simp add: extract_etl_def getitem_def Let_def)
  have "log_open_error (w\<lparr>conn := None\<rparr>) = None"
    "extract_etl U (response (w\<lparr>conn := None\<rparr>)) = Inl ?e"
    using assms(3) x by simp_all
  then have t: "fst (try_block U (w\<lparr>conn := None\<rparr>)) = Inl ?e"
    by (simp add: try_block_extract_raises)
  have "py ''ERROR: '' @ str_exn ?e = py ''ERROR: list index out of range''"
    by (simp add: py_def)
  with run_extract_raises[OF assms(3) x] x t show ?thesis by simp
qed

theorem missing_table_body_witness:
  "response (world_at_start (Inr page_without_tables) None) = Inr page_without_tables \<and>
   length (find_all (py ''tbody'') page_without_tables) < 3 \<and>
   log_open_error (world_at_start (Inr page_without_tables) None) = None \<and>
   extract_etl tables_unused (response (world_at_start (Inr page_without_tables) None)) =
     Inl (IndexError (py ''list index out of range'')) \<and>
   fst (run tables_unused (world_at_start (Inr page_without_tables) None)) = Inr ()"
proof -
  let ?w = "world_at_start (Inr page_without_tables) None"
  have h1: "response ?w = Inr page_without_tables" by (simp add: world_at_start_def)
  have h2: "length (find_all (py ''tbody'') page_without_tables) < 3"
    by (simp add: page_without_tables_def find_all_def py_def)
  have h3: "log_open_error ?w = None" by (simp add: world_at_start_def)
  from missing_table_body[OF h1 h2 h3, of tables_unused]
  have "extract_etl tables_unused (response ?w) = Inl (IndexError (py ''list index out of range''))"
    and "fst (run tables_unused ?w) = Inr ()"
    by simp_all
  with h1 h2 h3 show ?thesis by (intro conjI)
qed

text \<open>
  C8. In a run whose extraction raises \<open>e\<close> (it is reached: the log file can be
  opened), the handler appends the entry of the message \<open>ERROR: \<close> followed by the text
  of \<open>e\<close>; \<open>conn\<close> was never bound, so \<open>conn.close()\<close> raises a \<open>NameError\<close>, which the
  finally clause swallows, leaving everything as it was; the run ends without an
  uncaught exception.
\<close>

theorem extraction_failure_logged:
  assumes "log_open_error w = None"
    and "extract_etl U (response w) = Inl e"
  shows "\<exists>w'. run U w = (Inr (), w') \<and>
     log_file w' = log_file w @
       [timestamps w (now_calls w) @ py '' : '' @
          py ''Preliminaries complete. Initiating ETL process.'' @ [10],
        timestamps w (Suc (now_calls w)) @ py '' : '' @ (py ''ERROR: '' @ str_exn e) @ [10]] \<and>
     conn w' = None \<and>
     fst (conn_close w') =
       Inl (NameError (py ''name '' @ [39] @ py ''conn'' @ [39] @ py '' is not defined'')) \<and>
     finally_block w' = w'"
  by (simp add: run_extract_raises[OF assms] conn_close_def finally_block_def)

theorem extraction_failure_logged_witness:
  "log_open_error (world_at_start (Inl connection_error) None) = None \<and>
   extract_etl tables_unused (response (world_at_start (Inl connection_error) None)) =
     Inl connection_error \<and>
   (\<exists>w'. run tables_unused (world_at_start (Inl connection_error) None) = (Inr (), w') \<and>
      log_file w' =
        [py ''2024-Jan-01-00:00:00 : Preliminaries complete. Initiating ETL process.'' @ [10],
         py ''2024-Jan-01-00:00:00 : ERROR: Connection refused'' @ [10]] \<and>
      conn w' = None \<and> finally_block w' = w')"
proof -
  let ?w = "world_at_start (Inl connection_error) None"
  have h1: "log_open_error ?w = None" by (simp add: world_at_start_def)
  have h2: "extract_etl tables_unused (response ?w) = Inl connection_error"
    by (simp add: world_at_start_def extract_etl_def)
  from extraction_failure_logged[OF h1 h2] obtain w'
    where r: "run tables_unused ?w = (Inr (), w')"
      and l: "log_file w' = log_file ?w @
       [timestamps ?w (now_calls ?w) @ py '' : '' @
          py ''Preliminaries complete. Initiating ETL process.'' @ [10],
        timestamps ?w (Suc (now_calls ?w)) @ py '' : '' @
          (py ''ERROR: '' @ str_exn connection_error) @ [10]]"
      and c: "conn w' = None" "finally_block w' = w'"
    by blast
  from l have "log_file w' =
        [py ''2024-Jan-01-00:00:00 : Preliminaries complete. Initiating ETL process.'' @ [10],
         py ''2024-Jan-01-00:00:00 : ERROR: Connection refused'' @ [10]]"
    by (simp add: world_at_start_def connection_error_def py_def)
  with r c have "\<exists>w'. run tables_unused ?w = (Inr (), w') \<and>
      log_file w' =
        [py ''2024-Jan-01-00:00:00 : Preliminaries complete. Initiating ETL process.'' @ [10],
         py ''2024-Jan-01-00:00:00 : ERROR: Connection refused'' @ [10]] \<and>
      conn w' = None \<and> finally_block w' = w'"
    by blast
  with h1 h2 show ?thesis by (intro conjI)
qed

text \<open>
  C9, as amended. \<open>log_progress\<close> handles no exception of its own: when the log file
  cannot be opened, every call raises. The first call, in the try block, is caught by
  the top-level handler, so no stage of the pipeline runs; the handler's own call
  raises again, nothing catches it, and the run ends with that exception after the
  finally clause, with nothing logged, printed or written.
\<close>

theorem logging_failure_aborts:
  assumes "log_open_error w = Some e"
  shows "fst (log_progress inp w) = Inl e \<and>
     run U w = (Inl e, w\<lparr>conn := None, now_calls := now_calls w + 2\<rparr>)"
  by (simp add: log_progress_fail[OF assms] run_log_fails[OF assms])

theorem logging_failure_aborts_witness:
  "log_open_error (world_at_start (Inl connection_error) (Some permission_denied)) =
     Some permission_denied \<and>
   run tables_unused (world_at_start (Inl connection_error) (Some permission_denied)) =
     (Inl permission_denied,
      (world_at_start (Inl connection_error) (Some permission_denied))\<lparr>now_calls := 2\<rparr>)"
proof -
  let ?w = "world_at_start (Inl connection_error) (Some permission_denied)"
  have h: "log_open_error ?w = Some permission_denied" by (simp add: world_at_start_def)
  from logging_failure_aborts[OF h, of "[]" tables_unused]
  have "run tables_unused ?w =
          (Inl permission_denied, ?w\<lparr>conn := None, now_calls := now_calls ?w + 2\<rparr>)"
    by simp
  moreover have "?w\<lparr>conn := None, now_calls := now_calls ?w + 2\<rparr> = ?w\<lparr>now_calls := 2\<rparr>"
    by (simp add: world_at_start_def)
  ultimately have "run tables_unused ?w = (Inl permission_denied, ?w\<lparr>now_calls := 2\<rparr>)"
    by simp
  with h show ?thesis by (intro conjI)
qed

text \<open>
  The claim as written has no failure of the logger end the run. With a log file
  that cannot be opened and a page that would extract, the run ends with the
  logger's exception, uncaught, and the log and the CSV file are untouched.
\<close>

theorem unwritable_log_counterexample:
  "log_open_error (world_at_start (Inr (page_with_rows [row_france])) (Some permission_denied)) =
     Some permission_denied \<and>
   fst (run tables_unused
          (world_at_start (Inr (page_with_rows [row_france])) (Some permission_denied))) =
     Inl permission_denied \<and>
   csv_file (snd (run tables_unused
          (world_at_start (Inr (page_with_rows [row_france])) (Some permission_denied)))) = None \<and>
   log_file (snd (run tables_unused
          (world_at_start (Inr (page_with_rows [row_france])) (Some permission_denied)))) = []"
proof -
  let ?w = "world_at_start (Inr (page_with_rows [row_france])) (Some permission_denied)"
  have h: "log_open_error ?w = Some permission_denied" by (simp add: world_at_start_def)
  show ?thesis by (simp add: run_log_fails[OF h]) (simp add: world_at_start_def)
qed

section \<open>The query\<close>

text \<open>
  C7. With the three rows (A, 150.0), (B, 99.9), (C, 100.0) loaded into the table,
  the query of the script returns, and prints, exactly the rows of A and C.
\<close>

theorem query_scenario_result:
  assumes "to_sql_error w = None"
  shows "and_then (load_to_db query_scenario table_name) (\<lambda>_. run_query query_statement) w =
     (Inr (), w\<lparr>db_tables := (db_tables w)(table_name \<mapsto> map snd query_scenario),
               stdout := stdout w @
                 [Out_query query_statement,
                  Out_frame [CleanRow (py ''A'') (Num 150), CleanRow (py ''C'') (Num 100)]]\<rparr>) \<and>
     read_sql query_statement
       (w\<lparr>db_tables := (db_tables w)(table_name \<mapsto> map snd query_scenario)\<rparr>) =
     Inr [CleanRow (py ''A'') (Num 150), CleanRow (py ''C'') (Num 100)]"
proof -
  have "float64 (999 / 10) = Num (of_int 7029837543348634 / 2 ^ 46)"
    by (rule float64_near) simp_all
  then have b: "\<not> at_least (float64 (999 / 10)) 100" by simp
  show ?thesis
    using assms b
    by (simp add: and_then_def load_to_db_def run_query_def query_statement_def
        query_scenario_def Let_def)
qed

theorem query_scenario_result_witness:
  "to_sql_error (world_at_start (Inl connection_error) None) = None \<and>
   read_sql query_statement
     ((world_at_start (Inl connection_error) None)
        \<lparr>db_tables := (db_tables (world_at_start (Inl connection_error) None))
           (table_name \<mapsto> map snd query_scenario)\<rparr>) =
   Inr [CleanRow (py ''A'') (Num 150), CleanRow (py ''C'') (Num 100)]"
proof -
  have h: "to_sql_error (world_at_start (Inl connection_error) None) = None"
    by (simp add: world_at_start_def)
  from h query_scenario_result[OF h] show ?thesis by (intro conjI) simp_all
qed

end
